theory Spec2Isabelle
  imports Complex_Main "HOL-Library.Sublist"
begin

section \<open>The response adapter of \<^verbatim>\<open>mytests/custom_model_example.py\<close>\<close>

text \<open>
  The class \<^verbatim>\<open>CustomOpenAICompatibleModel\<close> wraps an OpenAI-compatible asynchronous
  client. Its \<^verbatim>\<open>__call__\<close> issues one chat-completion request and hands the answer
  to \<^verbatim>\<open>_parse_response\<close> (one value) or to \<^verbatim>\<open>_parse_stream_response\<close> (an
  asynchronous generator of values). Identifiers cannot start with an underscore
  here, so the three methods are \<open>call\<close>, \<open>parse_response\<close> and
  \<open>parse_stream_response\<close>.
\<close>

subsection \<open>Strings, exceptions and the clock\<close>

text \<open>
  A Python \<^verbatim>\<open>str\<close> is a sequence of Unicode code points, and the failure message of
  the adapter is not ASCII, so a string is a list of code points. Length and prefix
  are then Python's own.
\<close>

type_synonym pystr = "nat list"

text \<open>
  An exception is a value; all the adapter ever does with one is \<^verbatim>\<open>str(e)\<close>. Only
  instances of \<^verbatim>\<open>Exception\<close> are modelled: that is the class the handler of
  \<^verbatim>\<open>__call__\<close> names.
\<close>

datatype exn = Exception (str: pystr)

text \<open>
  \<^verbatim>\<open>datetime.now()\<close> reads the wall clock with a resolution of one microsecond. A
  reading is an integer number of microseconds, the difference of two readings is a
  \<^verbatim>\<open>timedelta\<close> (again microseconds, of either sign), and \<^verbatim>\<open>total_seconds()\<close>
  divides by \<open>10\<^sup>6\<close>. The floating-point rounding of that quotient is not
  modelled; its sign is that of the exact quotient. The readings are parameters of
  the functions that take them: \<open>start_time\<close> is the reading of line 109, \<open>now\<close> the
  one taken inside the parser.
\<close>

type_synonym datetime = int

definition total_seconds :: "int \<Rightarrow> rat" where
  "total_seconds delta = of_int delta / 1000000"

subsection \<open>What the adapter returns\<close>

text \<open>
  The framework's content blocks are dictionaries tagged by their \<^verbatim>\<open>type\<close> key; the
  tag \<^verbatim>\<open>"text"\<close> is the constructor \<open>TextBlock\<close>. The adapter only ever builds text
  blocks; the other two kinds are there so that "a text segment" says something.
\<close>

datatype ContentBlock =
    TextBlock pystr
  | ThinkingBlock pystr
  | ToolUseBlock pystr pystr "(pystr \<times> pystr) list"

record ChatUsage =
  input_tokens :: int
  output_tokens :: int
  time :: rat

record ChatResponse =
  content :: "ContentBlock list"
  usage :: "ChatUsage option"

text \<open>
  An asynchronous generator, run to its end by the consumer: the values it yielded,
  in order, and the exception that ended it, if one did.
\<close>

datatype AsyncGenerator =
  AsyncGenerator (yielded: "ChatResponse list") (raised: "exn option")

datatype call_result = Response ChatResponse | Generator AsyncGenerator

subsection \<open>What the client returns\<close>

text \<open>
  The objects of the OpenAI client, reduced to the attributes the adapter reads. An
  attribute that may be \<^verbatim>\<open>None\<close> is an option. A stream is the chunks the transport
  delivers and, when the transport fails before the end, the exception that the
  iteration raises after the last delivered chunk.
\<close>

datatype ChatCompletionMessage = ChatCompletionMessage (message_content: "pystr option")

datatype Choice = Choice (message: ChatCompletionMessage)

datatype CompletionUsage =
  CompletionUsage (prompt_tokens: "int option") (completion_tokens: "int option")

datatype ChatCompletion =
  ChatCompletion (choices: "Choice list") (completion_usage: "CompletionUsage option")

datatype ChoiceDelta = ChoiceDelta (delta_content: "pystr option")

datatype ChunkChoice = ChunkChoice (delta: ChoiceDelta)

datatype ChatCompletionChunk = ChatCompletionChunk (chunk_choices: "ChunkChoice list")

datatype AsyncStream =
  AsyncStream (chunks: "ChatCompletionChunk list") (interrupted: "exn option")

subsection \<open>The request\<close>

type_synonym pydict = "(string \<times> pystr) list"

record request =
  req_model :: pystr
  req_messages :: "pydict list"
  req_stream :: bool
  req_temperature :: rat
  req_max_tokens :: int
  req_tools :: "pydict list option"
  req_tool_choice :: "pystr option"

text \<open>
  \<^verbatim>\<open>self.client.chat.completions.create\<close> is the transport. It either raises or
  returns, and what it returns follows the \<^verbatim>\<open>stream\<close> entry of the request: a
  completion when it is false, a stream when it is true. The two cases are two
  functions of the client. (Extra keyword arguments of \<^verbatim>\<open>__call__\<close> are passed to
  the transport untouched and are left out.)
\<close>

record AsyncClient =
  create :: "request \<Rightarrow> exn + ChatCompletion"
  create_stream :: "request \<Rightarrow> exn + AsyncStream"

record CustomOpenAICompatibleModel =
  model_name :: pystr
  stream :: bool
  client :: AsyncClient
  temperature :: rat
  max_tokens :: int

subsection \<open>The adapter\<close>

text \<open>
  Lines 94 to 107. \<^verbatim>\<open>if tools:\<close> and \<^verbatim>\<open>if tool_choice:\<close> test truthiness: \<^verbatim>\<open>None\<close>,
  the empty list and the empty string add no entry.
\<close>

definition request_kwargs ::
  "CustomOpenAICompatibleModel \<Rightarrow> pydict list \<Rightarrow> pydict list option \<Rightarrow> pystr option \<Rightarrow> request"
where
  "request_kwargs self messages tools tool_choice =
     \<lparr> req_model = model_name self,
       req_messages = messages,
       req_stream = stream self,
       req_temperature = temperature self,
       req_max_tokens = max_tokens self,
       req_tools = (case tools of None \<Rightarrow> None
                    | Some ts \<Rightarrow> if ts = [] then None else Some ts),
       req_tool_choice = (case tool_choice of None \<Rightarrow> None
                          | Some c \<Rightarrow> if c = [] then None else Some c) \<rparr>"

text \<open>\<^verbatim>\<open>x or 0\<close> on a token count: \<^verbatim>\<open>None\<close> and \<open>0\<close> are falsy.\<close>

definition or_zero :: "int option \<Rightarrow> int" where
  "or_zero x = (case x of None \<Rightarrow> 0 | Some n \<Rightarrow> if n = 0 then 0 else n)"

text \<open>
  Lines 128 to 147. The guard of line 134 is false for an empty \<^verbatim>\<open>choices\<close>, for a
  content of \<^verbatim>\<open>None\<close> and for the empty string. A missing \<^verbatim>\<open>usage\<close> attribute and a
  \<^verbatim>\<open>usage\<close> of \<^verbatim>\<open>None\<close> are both \<open>None\<close>.
\<close>

definition parse_response :: "datetime \<Rightarrow> datetime \<Rightarrow> ChatCompletion \<Rightarrow> ChatResponse" where
  "parse_response now start_time response =
     (let content_blocks =
            (case choices response of
               [] \<Rightarrow> []
             | c # _ \<Rightarrow>
                 (case message_content (message c) of
                    None \<Rightarrow> []
                  | Some s \<Rightarrow> if s = [] then [] else [TextBlock s]));
          usage =
            (case completion_usage response of
               None \<Rightarrow> None
             | Some u \<Rightarrow>
                 Some \<lparr> input_tokens = or_zero (prompt_tokens u),
                        output_tokens = or_zero (completion_tokens u),
                        time = total_seconds (now - start_time) \<rparr>)
      in \<lparr> content = content_blocks, usage = usage \<rparr>)"

text \<open>
  Lines 156 to 165, the loop of the generator: the accumulator, the chunks still to
  come; the result is the values yielded on the way and the accumulator at the end.
  A chunk without choices, or whose first choice has a content of \<^verbatim>\<open>None\<close> or of the
  empty string, yields nothing.
\<close>

fun parse_stream_loop ::
  "pystr \<Rightarrow> ChatCompletionChunk list \<Rightarrow> ChatResponse list \<times> pystr"
where
  "parse_stream_loop accumulated_text [] = ([], accumulated_text)"
| "parse_stream_loop accumulated_text (chunk # rest) =
     (case chunk_choices chunk of
        [] \<Rightarrow> parse_stream_loop accumulated_text rest
      | c # _ \<Rightarrow>
          (case delta_content (delta c) of
             None \<Rightarrow> parse_stream_loop accumulated_text rest
           | Some content' \<Rightarrow>
               if content' = [] then parse_stream_loop accumulated_text rest
               else
                 (let accumulated_text' = accumulated_text @ content';
                      (ys, final) = parse_stream_loop accumulated_text' rest
                  in (\<lparr> content = [TextBlock accumulated_text'], usage = None \<rparr> # ys,
                      final))))"

text \<open>
  Lines 149 to 176. When the iteration over the stream raises, the exception leaves
  the generator: nothing in its body catches it, and the last value is never
  yielded. Otherwise the last value repeats the accumulated text and carries the
  usage record, whose time is read when the stream is exhausted.
\<close>

definition parse_stream_response :: "datetime \<Rightarrow> datetime \<Rightarrow> AsyncStream \<Rightarrow> AsyncGenerator" where
  "parse_stream_response now start_time response =
     (let (ys, accumulated_text) = parse_stream_loop [] (chunks response)
      in case interrupted response of
           Some e \<Rightarrow> AsyncGenerator ys (Some e)
         | None \<Rightarrow>
             AsyncGenerator
               (ys @ [\<lparr> content = [TextBlock accumulated_text],
                        usage = Some \<lparr> input_tokens = 0, output_tokens = 0,
                                       time = total_seconds (now - start_time) \<rparr> \<rparr>])
               None)"

text \<open>The text before \<^verbatim>\<open>str(e)\<close> in line 124, eight code points ending in a colon and a space.\<close>

definition failure_prefix :: pystr where
  "failure_prefix = [27169, 22411, 35843, 29992, 22833, 36133, 58, 32]"

text \<open>
  Lines 84 to 126. The handler covers the awaited request and, without streaming,
  the parsing. With streaming, line 115 only creates the generator; its body runs
  when the caller iterates, after \<^verbatim>\<open>__call__\<close> has returned.
\<close>

definition call ::
  "CustomOpenAICompatibleModel \<Rightarrow> datetime \<Rightarrow> datetime \<Rightarrow>
     pydict list \<Rightarrow> pydict list option \<Rightarrow> pystr option \<Rightarrow> call_result"
where
  "call self start_time now messages tools tool_choice =
     (let kwargs = request_kwargs self messages tools tool_choice;
          failed = (\<lambda>e. Response \<lparr> content = [TextBlock (failure_prefix @ str e)],
                                    usage = None \<rparr>)
      in if stream self then
           (case create_stream (client self) kwargs of
              Inl e \<Rightarrow> failed e
            | Inr response \<Rightarrow> Generator (parse_stream_response now start_time response))
         else
           (case create (client self) kwargs of
              Inl e \<Rightarrow> failed e
            | Inr response \<Rightarrow> Response (parse_response now start_time response)))"

subsection \<open>Notions used to state the properties\<close>

text \<open>The texts of the text segments of a content list, in order.\<close>

fun text_segments :: "ContentBlock list \<Rightarrow> pystr list" where
  "text_segments [] = []"
| "text_segments (TextBlock t # bs) = t # text_segments bs"
| "text_segments (ThinkingBlock t # bs) = text_segments bs"
| "text_segments (ToolUseBlock i n a # bs) = text_segments bs"

text \<open>The text of a value: its text segments, joined.\<close>

definition response_text :: "ChatResponse \<Rightarrow> pystr" where
  "response_text r = concat (text_segments (content r))"

text \<open>
  The guard of line 159 as a function: the delta a chunk adds to the accumulator,
  \<open>None\<close> when the guard is false.
\<close>

fun chunk_delta :: "ChatCompletionChunk \<Rightarrow> pystr option" where
  "chunk_delta (ChatCompletionChunk []) = None"
| "chunk_delta (ChatCompletionChunk (c # cs)) =
     (case delta_content (delta c) of
        None \<Rightarrow> None
      | Some s \<Rightarrow> if s = [] then None else Some s)"

text \<open>The deltas of the chunks that pass the guard, in order.\<close>

definition deltas :: "ChatCompletionChunk list \<Rightarrow> pystr list" where
  "deltas cs = List.map_filter chunk_delta cs"

text \<open>A chunk as the transport sends it for a piece of text: one choice, whose delta is the text.\<close>

definition text_chunk :: "pystr \<Rightarrow> ChatCompletionChunk" where
  "text_chunk s = ChatCompletionChunk [ChunkChoice (ChoiceDelta (Some s))]"

section \<open>Properties\<close>

subsection \<open>The generator, closed form\<close>

text \<open>
  The loop yields one value per delta, holding the deltas so far joined; the
  accumulator ends as all deltas joined.
\<close>

lemma deltas_Nil: "deltas [] = []"
  by (simp add: deltas_def map_filter_simps)

lemma deltas_Cons:
  "deltas (c # cs) = (case chunk_delta c of None \<Rightarrow> deltas cs | Some d \<Rightarrow> d # deltas cs)"
  by (simp add: deltas_def map_filter_simps split: option.splits)

lemma chunk_delta_nonempty: "chunk_delta c = Some d \<Longrightarrow> d \<noteq> []"
  by (cases c rule: chunk_delta.cases) (auto split: option.splits if_splits)

lemma deltas_nonempty: "d \<in> set (deltas cs) \<Longrightarrow> d \<noteq> []"
  by (induction cs) (auto simp: deltas_Nil deltas_Cons dest: chunk_delta_nonempty split: option.splits)

lemma loop_step:
  "parse_stream_loop acc (c # cs) =
     (case chunk_delta c of
        None \<Rightarrow> parse_stream_loop acc cs
      | Some d \<Rightarrow> (\<lparr> content = [TextBlock (acc @ d)], usage = None \<rparr> # fst (parse_stream_loop (acc @ d) cs),
                   snd (parse_stream_loop (acc @ d) cs)))"
  by (cases c rule: chunk_delta.cases) (auto simp: Let_def split: option.splits prod.splits)

lemma loop_snd: "snd (parse_stream_loop acc cs) = acc @ concat (deltas cs)"
  by (induction cs arbitrary: acc)
     (auto simp: loop_step deltas_Nil deltas_Cons simp del: parse_stream_loop.simps(2) split: option.splits)

lemma loop_fst:
  "fst (parse_stream_loop acc cs) =
     map (\<lambda>i. \<lparr> content = [TextBlock (acc @ concat (take (Suc i) (deltas cs)))], usage = None \<rparr>)
       [0..<length (deltas cs)]"
proof (induction cs arbitrary: acc)
  case Nil
  then show ?case by (simp add: deltas_Nil)
next
  case (Cons c cs)
  show ?case
  proof (cases "chunk_delta c")
    case None
    then show ?thesis by (simp add: loop_step deltas_Cons Cons.IH del: parse_stream_loop.simps(2))
  next
    case (Some d)
    then show ?thesis
      by (simp add: loop_step deltas_Cons Cons.IH upt_conv_Cons map_Suc_upt[symmetric] del: upt_Suc parse_stream_loop.simps(2))
  qed
qed

lemma psr_completed:
  "parse_stream_response now st (AsyncStream cs None) =
     AsyncGenerator
       (map (\<lambda>i. \<lparr> content = [TextBlock (concat (take (Suc i) (deltas cs)))], usage = None \<rparr>)
          [0..<length (deltas cs)]
        @ [\<lparr> content = [TextBlock (concat (deltas cs))],
               usage = Some \<lparr> input_tokens = 0, output_tokens = 0,
                              time = total_seconds (now - st) \<rparr> \<rparr>])
       None"
  using loop_fst [of "[]" cs] loop_snd [of "[]" cs]
  by (simp add: parse_stream_response_def case_prod_beta)

lemma psr_interrupted:
  "parse_stream_response now st (AsyncStream cs (Some e)) =
     AsyncGenerator
       (map (\<lambda>i. \<lparr> content = [TextBlock (concat (take (Suc i) (deltas cs)))], usage = None \<rparr>)
          [0..<length (deltas cs)])
       (Some e)"
  using loop_fst [of "[]" cs]
  by (simp add: parse_stream_response_def case_prod_beta)

lemma yielded_length:
  "length (yielded (parse_stream_response now st (AsyncStream cs e))) =
     length (deltas cs) + (if e = None then 1 else 0)"
  by (cases e) (simp_all add: psr_completed psr_interrupted)

lemma yielded_content:
  assumes "i < length (yielded (parse_stream_response now st (AsyncStream cs e)))"
  shows "content (yielded (parse_stream_response now st (AsyncStream cs e)) ! i) =
           [TextBlock (concat (take (Suc i) (deltas cs)))]"
proof (cases e)
  case None
  with assms have "i \<le> length (deltas cs)" by (simp add: yielded_length)
  then show ?thesis using None
    by (cases "i < length (deltas cs)") (simp_all add: psr_completed nth_append)
next
  case (Some x)
  with assms show ?thesis by (simp add: psr_interrupted)
qed

lemma yielded_text:
  assumes "i < length (yielded (parse_stream_response now st (AsyncStream cs e)))"
  shows "response_text (yielded (parse_stream_response now st (AsyncStream cs e)) ! i) =
           concat (take (Suc i) (deltas cs))"
  using yielded_content [OF assms] by (simp add: response_text_def)

lemma concat_take_Suc:
  "i < length ds \<Longrightarrow> concat (take (Suc i) ds) = concat (take i ds) @ ds ! i"
  by (simp add: take_Suc_conv_app_nth)

lemma concat_take_prefix: "prefix (concat (take i ds)) (concat (take (Suc i) ds))"
  by (cases "i < length ds") (simp_all add: concat_take_Suc)

lemma deltas_length: "length (deltas cs) = length (filter (\<lambda>c. chunk_delta c \<noteq> None) cs)"
  by (induction cs) (auto simp: deltas_Nil deltas_Cons split: option.splits)

lemma total_seconds_nonneg: "0 \<le> total_seconds d \<longleftrightarrow> 0 \<le> d"
  by (simp add: total_seconds_def zero_le_divide_iff)

lemma completed_last:
  "last (yielded (parse_stream_response now st (AsyncStream cs None))) =
     \<lparr> content = [TextBlock (concat (deltas cs))],
       usage = Some \<lparr> input_tokens = 0, output_tokens = 0, time = total_seconds (now - st) \<rparr> \<rparr>"
  by (simp add: psr_completed)

lemma completed_butlast_usage:
  "r \<in> set (butlast (yielded (parse_stream_response now st (AsyncStream cs None)))) \<Longrightarrow>
   usage r = None"
  by (auto simp: psr_completed)

lemma final_text_is_all_deltas:
  "response_text (last (yielded (parse_stream_response now st (AsyncStream cs None)))) =
     concat (deltas cs)"
  by (simp add: completed_last response_text_def)

lemma parse_response_text:
  "response_text (parse_response now st
       (ChatCompletion (Choice (ChatCompletionMessage (Some s)) # others) u)) = s"
  by (simp add: parse_response_def response_text_def)

lemma strict_prefix_append: "zs \<noteq> [] \<Longrightarrow> strict_prefix xs (xs @ zs)"
  by (simp add: strict_prefix_def)

subsection \<open>The call\<close>

lemma call_non_streaming:
  "\<not> stream self \<Longrightarrow>
   create (client self) (request_kwargs self messages tools tool_choice) = Inr response \<Longrightarrow>
   call self start_time now messages tools tool_choice =
     Response (parse_response now start_time response)"
  by (simp add: call_def)

lemma call_streaming:
  "stream self \<Longrightarrow>
   create_stream (client self) (request_kwargs self messages tools tool_choice) = Inr response \<Longrightarrow>
   call self start_time now messages tools tool_choice =
     Generator (parse_stream_response now start_time response)"
  by (simp add: call_def)

subsection \<open>A failed request becomes content\<close>

text \<open>
  C1, as the code has it. When the awaited request to the transport raises, in
  the streaming and in the non-streaming configuration alike and whatever the
  messages, tools and tool choice are, \<^verbatim>\<open>__call__\<close> returns one response: its
  content is a single text segment, the failure prefix followed by \<^verbatim>\<open>str(e)\<close>,
  and it has no usage record.
\<close>

theorem request_failure_becomes_content:
  assumes "if stream self
           then create_stream (client self) (request_kwargs self messages tools tool_choice) = Inl e
           else create (client self) (request_kwargs self messages tools tool_choice) = Inl e"
  shows "call self start_time now messages tools tool_choice =
           Response \<lparr> content = [TextBlock (failure_prefix @ str e)], usage = None \<rparr>"
  using assms by (simp add: call_def split: if_splits)

text \<open>
  The theorem at a streaming model whose transport refuses the request with the
  message \<^verbatim>\<open>boom\<close>.
\<close>

theorem request_failure_becomes_content_witness:
  "create_stream
     (client \<lparr> model_name = [109], stream = True,
               client = \<lparr> create = (\<lambda>q. Inl (Exception [120])),
                          create_stream = (\<lambda>q. Inl (Exception [98, 111, 111, 109])) \<rparr>,
               temperature = 7 / 10, max_tokens = 2048 \<rparr>)
     (request_kwargs
        \<lparr> model_name = [109], stream = True,
          client = \<lparr> create = (\<lambda>q. Inl (Exception [120])),
                     create_stream = (\<lambda>q. Inl (Exception [98, 111, 111, 109])) \<rparr>,
          temperature = 7 / 10, max_tokens = 2048 \<rparr>
        [[(''role'', [117, 115, 101, 114]), (''content'', [49, 43, 49, 61, 63])]] None None) =
     Inl (Exception [98, 111, 111, 109]) \<and>
   call \<lparr> model_name = [109], stream = True,
          client = \<lparr> create = (\<lambda>q. Inl (Exception [120])),
                     create_stream = (\<lambda>q. Inl (Exception [98, 111, 111, 109])) \<rparr>,
          temperature = 7 / 10, max_tokens = 2048 \<rparr>
     4 9 [[(''role'', [117, 115, 101, 114]), (''content'', [49, 43, 49, 61, 63])]] None None =
   Response \<lparr> content = [TextBlock [27169, 22411, 35843, 29992, 22833, 36133, 58, 32,
                                       98, 111, 111, 109]],
              usage = None \<rparr>"
  using request_failure_becomes_content
    [of "\<lparr> model_name = [109], stream = True,
            client = \<lparr> create = (\<lambda>q. Inl (Exception [120])),
                       create_stream = (\<lambda>q. Inl (Exception [98, 111, 111, 109])) \<rparr>,
            temperature = 7 / 10, max_tokens = 2048 \<rparr>"
        "[[(''role'', [117, 115, 101, 114]), (''content'', [49, 43, 49, 61, 63])]]" None None
        "Exception [98, 111, 111, 109]" 4 9]
  by (simp add: failure_prefix_def)

text \<open>
  C1 as the specification states it covers every exception of the transport. A
  transport that accepts the request, delivers one chunk and then fails is a
  case where it does not hold: \<^verbatim>\<open>__call__\<close> has returned the generator by then,
  the caller receives one value from it and then the exception itself.
\<close>

theorem failure_in_stream_counterexample:
  "interrupted (AsyncStream [text_chunk [104]] (Some (Exception [120]))) = Some (Exception [120]) \<and>
   call \<lparr> model_name = [109], stream = True,
          client = \<lparr> create = (\<lambda>q. Inl (Exception [120])),
                     create_stream = (\<lambda>q. Inr (AsyncStream [text_chunk [104]] (Some (Exception [120])))) \<rparr>,
          temperature = 7 / 10, max_tokens = 2048 \<rparr>
     4 9 [[(''role'', [117, 115, 101, 114]), (''content'', [49, 43, 49, 61, 63])]] None None =
   Generator (AsyncGenerator [\<lparr> content = [TextBlock [104]], usage = None \<rparr>] (Some (Exception [120]))) \<and>
   call \<lparr> model_name = [109], stream = True,
          client = \<lparr> create = (\<lambda>q. Inl (Exception [120])),
                     create_stream = (\<lambda>q. Inr (AsyncStream [text_chunk [104]] (Some (Exception [120])))) \<rparr>,
          temperature = 7 / 10, max_tokens = 2048 \<rparr>
     4 9 [[(''role'', [117, 115, 101, 114]), (''content'', [49, 43, 49, 61, 63])]] None None \<noteq>
   Response \<lparr> content = [TextBlock (failure_prefix @ str (Exception [120]))], usage = None \<rparr>"
  by (simp add: call_def parse_stream_response_def text_chunk_def Let_def)

subsection \<open>Without streaming\<close>

text \<open>
  C6. For a non-empty list of messages, a model configured without streaming
  returns exactly one response from \<^verbatim>\<open>__call__\<close>: a single value and not a
  generator, whether the transport answers or raises.
\<close>

theorem non_streaming_returns_one_response:
  assumes "messages \<noteq> []" and "\<not> stream self"
  shows "\<exists>r. call self start_time now messages tools tool_choice = Response r"
  using assms(2) by (simp add: call_def split: sum.splits)

text \<open>
  The theorem at the request of the specification's example, \<^verbatim>\<open>1+1=?\<close>.
\<close>

theorem non_streaming_returns_one_response_witness:
  "[[(''role'', [117, 115, 101, 114]), (''content'', [49, 43, 49, 61, 63])]] \<noteq> [] \<and>
   \<not> stream \<lparr> model_name = [109], stream = False,
              client = \<lparr> create = (\<lambda>q. Inr (ChatCompletion [Choice (ChatCompletionMessage (Some [50]))] None)),
                         create_stream = (\<lambda>q. Inl (Exception [120])) \<rparr>,
              temperature = 7 / 10, max_tokens = 2048 \<rparr> \<and>
   (\<exists>r. call \<lparr> model_name = [109], stream = False,
              client = \<lparr> create = (\<lambda>q. Inr (ChatCompletion [Choice (ChatCompletionMessage (Some [50]))] None)),
                         create_stream = (\<lambda>q. Inl (Exception [120])) \<rparr>,
              temperature = 7 / 10, max_tokens = 2048 \<rparr>
        4 9 [[(''role'', [117, 115, 101, 114]), (''content'', [49, 43, 49, 61, 63])]] None None = Response r)"
  using non_streaming_returns_one_response
    [of "[[(''role'', [117, 115, 101, 114]), (''content'', [49, 43, 49, 61, 63])]]"
        "\<lparr> model_name = [109], stream = False,
              client = \<lparr> create = (\<lambda>q. Inr (ChatCompletion [Choice (ChatCompletionMessage (Some [50]))] None)),
                         create_stream = (\<lambda>q. Inl (Exception [120])) \<rparr>,
              temperature = 7 / 10, max_tokens = 2048 \<rparr>" 4 9 None None]
  by simp

text \<open>
  C7. When the first choice of the completion has a non-empty text, the response
  holds a single text segment, that text. When the client reports usage with a
  prompt and a completion count, the usage record has these two counts as its
  input and output tokens (and the elapsed time).
\<close>

theorem first_choice_text_and_usage:
  assumes "s \<noteq> []"
  shows "content (parse_response now start_time
            (ChatCompletion (Choice (ChatCompletionMessage (Some s)) # others) u)) = [TextBlock s] \<and>
         (\<forall>p c. u = Some (CompletionUsage (Some p) (Some c)) \<longrightarrow>
            usage (parse_response now start_time
                (ChatCompletion (Choice (ChatCompletionMessage (Some s)) # others) u)) =
              Some \<lparr> input_tokens = p, output_tokens = c,
                     time = total_seconds (now - start_time) \<rparr>)"
  using assms by (simp add: parse_response_def or_zero_def)

text \<open>
  The theorem at a completion with two choices and a usage of 12 and 1 tokens.
\<close>

theorem first_choice_text_and_usage_witness:
  "[50] \<noteq> ([] :: nat list) \<and>
   parse_response 9 4
     (ChatCompletion [Choice (ChatCompletionMessage (Some [50])), Choice (ChatCompletionMessage (Some [51]))]
        (Some (CompletionUsage (Some 12) (Some 1)))) =
     \<lparr> content = [TextBlock [50]],
       usage = Some \<lparr> input_tokens = 12, output_tokens = 1, time = total_seconds (9 - 4) \<rparr> \<rparr>"
  using first_choice_text_and_usage
    [of "[50]" 9 4 "[Choice (ChatCompletionMessage (Some [51]))]" "Some (CompletionUsage (Some 12) (Some 1))"]
  by (simp add: parse_response_def or_zero_def)

text \<open>
  C10. A completion without choices, or whose first choice has a content of
  \<^verbatim>\<open>None\<close> or of the empty string, gives a response whose content list is empty:
  no segment at all, and no empty text segment either. \<open>parse_response\<close> is
  total, so nothing is raised.
\<close>

theorem no_text_no_segment:
  "content (parse_response now start_time (ChatCompletion [] u)) = [] \<and>
   content (parse_response now start_time
      (ChatCompletion (Choice (ChatCompletionMessage None) # others) u)) = [] \<and>
   content (parse_response now start_time
      (ChatCompletion (Choice (ChatCompletionMessage (Some [])) # others) u)) = []"
  by (simp add: parse_response_def)

subsection \<open>With streaming\<close>

text \<open>
  C4. In a streaming call every value the generator yields holds exactly one text
  segment, the text of each value is a prefix of the text of the next one, and so
  the lengths of the texts never decrease. This holds for the values of a stream
  that the transport delivers to its end and for those of a stream that fails on
  the way.
\<close>

theorem streamed_texts_grow:
  assumes "ys = yielded (parse_stream_response now start_time response)"
    and "Suc i < length ys"
  shows "content (ys ! i) = [TextBlock (response_text (ys ! i))] \<and>
         content (ys ! Suc i) = [TextBlock (response_text (ys ! Suc i))] \<and>
         prefix (response_text (ys ! i)) (response_text (ys ! Suc i)) \<and>
         length (response_text (ys ! i)) \<le> length (response_text (ys ! Suc i))"
proof -
  obtain cs e where r: "response = AsyncStream cs e" by (cases response)
  from assms r have i: "i < length (yielded (parse_stream_response now start_time (AsyncStream cs e)))"
    and si: "Suc i < length (yielded (parse_stream_response now start_time (AsyncStream cs e)))"
    by simp_all
  have p: "prefix (response_text (ys ! i)) (response_text (ys ! Suc i))"
    using yielded_text [OF i] yielded_text [OF si] assms(1) r
    by (simp only: concat_take_prefix)
  show ?thesis
    using p prefix_length_le [OF p] yielded_content [OF i] yielded_content [OF si]
      yielded_text [OF i] yielded_text [OF si] assms(1) r
    by simp
qed

theorem streamed_texts_grow_witness:
  "Suc 0 < length (yielded (parse_stream_response 9 4 (AsyncStream [text_chunk [104], text_chunk [105, 33]] None))) \<and>
   prefix (response_text (yielded (parse_stream_response 9 4 (AsyncStream [text_chunk [104], text_chunk [105, 33]] None)) ! 0))
          (response_text (yielded (parse_stream_response 9 4 (AsyncStream [text_chunk [104], text_chunk [105, 33]] None)) ! Suc 0)) \<and>
   response_text (yielded (parse_stream_response 9 4 (AsyncStream [text_chunk [104], text_chunk [105, 33]] None)) ! 0) = [104] \<and>
   response_text (yielded (parse_stream_response 9 4 (AsyncStream [text_chunk [104], text_chunk [105, 33]] None)) ! Suc 0) = [104, 105, 33]"
  using streamed_texts_grow [of "yielded (parse_stream_response 9 4 (AsyncStream [text_chunk [104], text_chunk [105, 33]] None))" 9 4
      "AsyncStream [text_chunk [104], text_chunk [105, 33]] None" 0]
  by (simp add: parse_stream_response_def text_chunk_def response_text_def Let_def)

text \<open>
  C2, as the code has it. For a stream delivered to its end, the sequence of
  values is not empty and its last value carries the usage record; the text of
  each value is a prefix of the text of the next; between the values before the
  last one the extension is strict; the last value repeats the text of the value
  before it.
\<close>

theorem streamed_texts_strict_before_final:
  assumes "ys = yielded (parse_stream_response now start_time (AsyncStream cs None))"
  shows "ys \<noteq> [] \<and> usage (last ys) \<noteq> None \<and>
         (\<forall>i. Suc i < length ys \<longrightarrow>
               prefix (response_text (ys ! i)) (response_text (ys ! Suc i))) \<and>
         (\<forall>i. Suc (Suc i) < length ys \<longrightarrow>
               strict_prefix (response_text (ys ! i)) (response_text (ys ! Suc i))) \<and>
         (\<forall>i. Suc (Suc i) = length ys \<longrightarrow>
               response_text (ys ! Suc i) = response_text (ys ! i))"
proof -
  let ?ds = "deltas cs"
  have len: "length ys = Suc (length ?ds)"
    using assms by (simp add: yielded_length)
  have rt: "response_text (ys ! i) = concat (take (Suc i) ?ds)" if "i < length ys" for i
    using that yielded_text [of i now start_time cs None] assms by simp
  have a: "ys \<noteq> []" using len by auto
  have b: "usage (last ys) \<noteq> None"
    using assms by (simp add: completed_last)
  have c: "prefix (response_text (ys ! i)) (response_text (ys ! Suc i))" if "Suc i < length ys" for i
    using that rt [of i] rt [of "Suc i"] by (simp only: concat_take_prefix Suc_lessD)
  have d: "strict_prefix (response_text (ys ! i)) (response_text (ys ! Suc i))"
    if "Suc (Suc i) < length ys" for i
  proof -
    from that len have lt: "Suc i < length ?ds" by simp
    then have "?ds ! Suc i \<in> set ?ds" by simp
    then have ne: "?ds ! Suc i \<noteq> []" by (rule deltas_nonempty)
    have "concat (take (Suc (Suc i)) ?ds) = concat (take (Suc i) ?ds) @ ?ds ! Suc i"
      using lt by (rule concat_take_Suc)
    then have "strict_prefix (concat (take (Suc i) ?ds)) (concat (take (Suc (Suc i)) ?ds))"
      using strict_prefix_append [OF ne] by simp
    then show ?thesis using that rt [of i] rt [of "Suc i"] by simp
  qed
  have e: "response_text (ys ! Suc i) = response_text (ys ! i)" if "Suc (Suc i) = length ys" for i
    using that len rt [of i] rt [of "Suc i"] by simp
  show ?thesis using a b c d e by blast
qed

text \<open>
  The theorem at a stream of two chunks, \<^verbatim>\<open>h\<close> and \<^verbatim>\<open>i!\<close>.
\<close>

theorem streamed_texts_strict_before_final_witness:
  "yielded (parse_stream_response 9 4 (AsyncStream [text_chunk [104], text_chunk [105, 33]] None)) =
     [\<lparr> content = [TextBlock [104]], usage = None \<rparr>,
      \<lparr> content = [TextBlock [104, 105, 33]], usage = None \<rparr>,
      \<lparr> content = [TextBlock [104, 105, 33]],
        usage = Some \<lparr> input_tokens = 0, output_tokens = 0, time = 1 / 200000 \<rparr> \<rparr>] \<and>
   strict_prefix
     (response_text (yielded (parse_stream_response 9 4 (AsyncStream [text_chunk [104], text_chunk [105, 33]] None)) ! 0))
     (response_text (yielded (parse_stream_response 9 4 (AsyncStream [text_chunk [104], text_chunk [105, 33]] None)) ! Suc 0)) \<and>
   response_text (yielded (parse_stream_response 9 4 (AsyncStream [text_chunk [104], text_chunk [105, 33]] None)) ! Suc (Suc 0)) =
   response_text (yielded (parse_stream_response 9 4 (AsyncStream [text_chunk [104], text_chunk [105, 33]] None)) ! Suc 0) \<and>
   usage (last (yielded (parse_stream_response 9 4 (AsyncStream [text_chunk [104], text_chunk [105, 33]] None)))) \<noteq> None"
  using streamed_texts_strict_before_final
    [of "yielded (parse_stream_response 9 4 (AsyncStream [text_chunk [104], text_chunk [105, 33]] None))"
        9 4 "[text_chunk [104], text_chunk [105, 33]]"]
  by (simp add: parse_stream_response_def text_chunk_def response_text_def Let_def total_seconds_def)

text \<open>
  C2 as the specification states it asks for a strict extension at every step.
  The stream of the single chunk \<^verbatim>\<open>h\<close> gives two values with the same text: the
  last step is not strict.
\<close>

theorem strict_extension_counterexample:
  "yielded (parse_stream_response 9 4 (AsyncStream [text_chunk [104]] None)) =
     [\<lparr> content = [TextBlock [104]], usage = None \<rparr>,
      \<lparr> content = [TextBlock [104]],
        usage = Some \<lparr> input_tokens = 0, output_tokens = 0, time = 1 / 200000 \<rparr> \<rparr>] \<and>
   \<not> strict_prefix
       (response_text (yielded (parse_stream_response 9 4 (AsyncStream [text_chunk [104]] None)) ! 0))
       (response_text (yielded (parse_stream_response 9 4 (AsyncStream [text_chunk [104]] None)) ! 1))"
  by (simp add: parse_stream_response_def text_chunk_def response_text_def Let_def total_seconds_def)

text \<open>
  C3, as the code has it. For a stream delivered to its end, the generator
  yields one value for each chunk that passes the guard of line 159 (a first
  choice with a non-empty delta content) and one more value at the end; the text
  of the value at position \<open>i\<close> is all the deltas up to that position joined,
  not the delta alone.
\<close>

theorem one_value_per_delta_and_a_final_one:
  assumes "ys = yielded (parse_stream_response now start_time (AsyncStream cs None))"
  shows "length ys = Suc (length (filter (\<lambda>c. chunk_delta c \<noteq> None) cs)) \<and>
         (\<forall>i. i < length ys \<longrightarrow>
               content (ys ! i) = [TextBlock (concat (take (Suc i) (deltas cs)))])"
  using assms yielded_content [of _ now start_time cs None]
  by (simp add: yielded_length deltas_length)

text \<open>
  The theorem at a stream of three chunks of which the second has no choices.
\<close>

theorem one_value_per_delta_and_a_final_one_witness:
  "length (yielded (parse_stream_response 9 4
       (AsyncStream [text_chunk [104], ChatCompletionChunk [], text_chunk [105, 33]] None))) = 3 \<and>
   length (filter (\<lambda>c. chunk_delta c \<noteq> None)
       [text_chunk [104], ChatCompletionChunk [], text_chunk [105, 33]]) = 2 \<and>
   content (yielded (parse_stream_response 9 4
       (AsyncStream [text_chunk [104], ChatCompletionChunk [], text_chunk [105, 33]] None)) ! 1) =
     [TextBlock [104, 105, 33]] \<and>
   concat (take (Suc 1) (deltas [text_chunk [104], ChatCompletionChunk [], text_chunk [105, 33]])) =
     [104, 105, 33]"
  using one_value_per_delta_and_a_final_one
    [of "yielded (parse_stream_response 9 4
           (AsyncStream [text_chunk [104], ChatCompletionChunk [], text_chunk [105, 33]] None))"
        9 4 "[text_chunk [104], ChatCompletionChunk [], text_chunk [105, 33]]"]
  by (simp add: text_chunk_def deltas_Cons deltas_Nil)

text \<open>
  C3 as the specification states it asks for exactly one value per chunk. One
  chunk of text gives two values, and two chunks without choices give one.
\<close>

theorem one_value_per_chunk_counterexample:
  "length (yielded (parse_stream_response 9 4 (AsyncStream [text_chunk [104]] None))) = 2 \<and>
   length [text_chunk [104]] = 1 \<and>
   length (yielded (parse_stream_response 9 4
     (AsyncStream [ChatCompletionChunk [], ChatCompletionChunk []] None))) = 1 \<and>
   length [ChatCompletionChunk [], ChatCompletionChunk []] = 2"
  by (simp add: parse_stream_response_def text_chunk_def Let_def)

text \<open>
  C9, as the code has it. For a stream delivered to its end the sequence of
  values is never empty; its length is one plus the number of chunks that pass
  the guard of line 159; and when no chunk passes it, the only value holds one
  text segment, the empty string, and the usage record.
\<close>

theorem stream_never_empty:
  assumes "ys = yielded (parse_stream_response now start_time (AsyncStream cs None))"
  shows "ys \<noteq> [] \<and>
         length ys = 1 + length (filter (\<lambda>c. chunk_delta c \<noteq> None) cs) \<and>
         (filter (\<lambda>c. chunk_delta c \<noteq> None) cs = [] \<longrightarrow>
            ys = [\<lparr> content = [TextBlock []],
                     usage = Some \<lparr> input_tokens = 0, output_tokens = 0,
                                    time = total_seconds (now - start_time) \<rparr> \<rparr>])"
proof -
  have len: "length ys = 1 + length (filter (\<lambda>c. chunk_delta c \<noteq> None) cs)"
    using assms by (simp add: yielded_length deltas_length)
  then have ne: "ys \<noteq> []" by auto
  have "ys = [\<lparr> content = [TextBlock []],
                 usage = Some \<lparr> input_tokens = 0, output_tokens = 0,
                                time = total_seconds (now - start_time) \<rparr> \<rparr>]"
    if "filter (\<lambda>c. chunk_delta c \<noteq> None) cs = []"
  proof -
    from that have "length (deltas cs) = 0" by (simp add: deltas_length)
    then have "deltas cs = []" by simp
    then show ?thesis using assms by (simp add: psr_completed)
  qed
  with len ne show ?thesis by blast
qed

text \<open>
  The theorem at a stream of three chunks none of which passes the guard: no
  choices, a content of \<^verbatim>\<open>None\<close>, an empty content.
\<close>

theorem stream_never_empty_witness:
  "filter (\<lambda>c. chunk_delta c \<noteq> None)
     [ChatCompletionChunk [], ChatCompletionChunk [ChunkChoice (ChoiceDelta None)], text_chunk []] = [] \<and>
   yielded (parse_stream_response 9 4
     (AsyncStream [ChatCompletionChunk [], ChatCompletionChunk [ChunkChoice (ChoiceDelta None)], text_chunk []] None)) =
     [\<lparr> content = [TextBlock []],
        usage = Some \<lparr> input_tokens = 0, output_tokens = 0, time = total_seconds (9 - 4) \<rparr> \<rparr>]"
  using stream_never_empty
    [of "yielded (parse_stream_response 9 4
          (AsyncStream [ChatCompletionChunk [], ChatCompletionChunk [ChunkChoice (ChoiceDelta None)], text_chunk []] None))"
        9 4 "[ChatCompletionChunk [], ChatCompletionChunk [ChunkChoice (ChoiceDelta None)], text_chunk []]"]
  by (simp add: text_chunk_def)

text \<open>
  C9 as the specification states it covers every streaming call. A stream that
  fails before its first chunk yields no value at all, and one that fails after
  one chunk of text yields one value, not two: the final value is only yielded
  when the loop ends normally.
\<close>

theorem interrupted_stream_counterexample:
  "yielded (parse_stream_response 9 4 (AsyncStream [] (Some (Exception [120])))) = [] \<and>
   length (yielded (parse_stream_response 9 4
        (AsyncStream [text_chunk [104]] (Some (Exception [120]))))) = 1 \<and>
   1 + length (filter (\<lambda>c. chunk_delta c \<noteq> None) [text_chunk [104]]) = 2"
  by (simp add: parse_stream_response_def text_chunk_def Let_def)

text \<open>
  C8, as the code has it. For a stream delivered to its end, the last value
  carries a usage record with zero input and output tokens and with the time
  between the two clock readings; that time is not negative when the reading at
  the end of the stream is not earlier than \<open>start_time\<close>; no value before the
  last one carries a usage record.
\<close>

theorem final_usage_zero_tokens:
  assumes "ys = yielded (parse_stream_response now start_time (AsyncStream cs None))"
  shows "usage (last ys) = Some \<lparr> input_tokens = 0, output_tokens = 0,
                                 time = total_seconds (now - start_time) \<rparr> \<and>
         (start_time \<le> now \<longrightarrow> 0 \<le> total_seconds (now - start_time)) \<and>
         (\<forall>r \<in> set (butlast ys). usage r = None)"
  using assms completed_butlast_usage [of _ now start_time cs]
  by (simp add: completed_last total_seconds_nonneg)

text \<open>
  The theorem at a stream of two chunks that starts at reading 4 and ends at
  reading 9.
\<close>

theorem final_usage_zero_tokens_witness:
  "(4::int) \<le> 9 \<and>
   usage (last (yielded (parse_stream_response 9 4 (AsyncStream [text_chunk [104], text_chunk [105]] None)))) =
     Some \<lparr> input_tokens = 0, output_tokens = 0, time = total_seconds (9 - 4) \<rparr> \<and>
   0 \<le> total_seconds (9 - 4) \<and>
   butlast (yielded (parse_stream_response 9 4 (AsyncStream [text_chunk [104], text_chunk [105]] None))) =
     [\<lparr> content = [TextBlock [104]], usage = None \<rparr>,
      \<lparr> content = [TextBlock [104, 105]], usage = None \<rparr>] \<and>
   map usage (butlast (yielded (parse_stream_response 9 4
        (AsyncStream [text_chunk [104], text_chunk [105]] None)))) = [None, None]"
  using final_usage_zero_tokens
    [of "yielded (parse_stream_response 9 4 (AsyncStream [text_chunk [104], text_chunk [105]] None))"
        9 4 "[text_chunk [104], text_chunk [105]]"]
  by (simp add: parse_stream_response_def text_chunk_def Let_def)

text \<open>
  C8 as the specification states it asks for a time that is never negative. The
  time is the difference of two readings of the wall clock, and
  \<open>parse_stream_response\<close> takes the first as an argument: with a \<open>start_time\<close>
  of 9 and a reading of 4 at the end of the stream it is negative.
\<close>

theorem elapsed_time_counterexample:
  "usage (last (yielded (parse_stream_response 4 9 (AsyncStream [text_chunk [104]] None)))) =
     Some \<lparr> input_tokens = 0, output_tokens = 0, time = - (1 / 200000) \<rparr> \<and>
   - (1 / 200000) < (0 :: rat)"
  by (simp add: parse_stream_response_def text_chunk_def Let_def total_seconds_def)

text \<open>
  C5, as the code has it. Take a completion whose first choice has the text
  \<open>s\<close>, empty or not, and a stream, delivered to its end, whose deltas joined
  are \<open>s\<close>. Then the last value of the stream has the text of the non-streaming
  response, which is \<open>s\<close>, and among the values of the stream the last one,
  and only it, carries a usage record.
\<close>

theorem streaming_ends_with_the_non_streaming_text:
  assumes "ys = yielded (parse_stream_response now start_time (AsyncStream cs None))"
    and "completion = ChatCompletion (Choice (ChatCompletionMessage (Some s)) # others) u"
    and "concat (deltas cs) = s"
  shows "response_text (last ys) = response_text (parse_response now' start_time' completion) \<and>
         response_text (last ys) = s \<and>
         usage (last ys) \<noteq> None \<and>
         (\<forall>r \<in> set (butlast ys). usage r = None)"
proof -
  have a: "response_text (last ys) = s"
    using assms(1,3) by (simp only: final_text_is_all_deltas)
  have b: "response_text (parse_response now' start_time' completion) = s"
    using assms(2) by (simp only: parse_response_text)
  have c: "usage (last ys) \<noteq> None"
    using assms(1) by (simp add: completed_last)
  have d: "\<forall>r \<in> set (butlast ys). usage r = None"
    using assms(1) completed_butlast_usage [of _ now start_time cs] by simp
  from a b c d show ?thesis by simp
qed

text \<open>
  The theorem at the text \<^verbatim>\<open>hi\<close>, streamed as two chunks.
\<close>

theorem streaming_ends_with_the_non_streaming_text_witness:
  "concat (deltas [text_chunk [104], text_chunk [105]]) = [104, 105] \<and>
   response_text (last (yielded (parse_stream_response 9 4
        (AsyncStream [text_chunk [104], text_chunk [105]] None)))) =
     response_text (parse_response 8 3
       (ChatCompletion [Choice (ChatCompletionMessage (Some [104, 105]))]
          (Some (CompletionUsage (Some 7) (Some 2))))) \<and>
   response_text (last (yielded (parse_stream_response 9 4
        (AsyncStream [text_chunk [104], text_chunk [105]] None)))) = [104, 105] \<and>
   usage (last (yielded (parse_stream_response 9 4
        (AsyncStream [text_chunk [104], text_chunk [105]] None)))) \<noteq> None \<and>
   map usage (butlast (yielded (parse_stream_response 9 4
        (AsyncStream [text_chunk [104], text_chunk [105]] None)))) = [None, None]"
  using streaming_ends_with_the_non_streaming_text
    [of "yielded (parse_stream_response 9 4 (AsyncStream [text_chunk [104], text_chunk [105]] None))"
        9 4 "[text_chunk [104], text_chunk [105]]"
        "ChatCompletion [Choice (ChatCompletionMessage (Some [104, 105]))]
          (Some (CompletionUsage (Some 7) (Some 2)))"
        "[104, 105]" "[]" "Some (CompletionUsage (Some 7) (Some 2))" 8 3]
  by (simp add: text_chunk_def deltas_Cons deltas_Nil parse_response_def response_text_def
      parse_stream_response_def Let_def)

text \<open>
  C5 as the specification states it covers every streaming call. A stream that
  delivers \<^verbatim>\<open>h\<close> and \<^verbatim>\<open>i\<close>, all the text of the completion \<^verbatim>\<open>hi\<close>, and then fails
  has no value with a usage record: the last value holds the whole text and its
  usage is absent.
\<close>

theorem no_usage_after_failure_counterexample:
  "concat (deltas [text_chunk [104], text_chunk [105]]) = [104, 105] \<and>
   response_text (parse_response 8 3
       (ChatCompletion [Choice (ChatCompletionMessage (Some [104, 105]))]
          (Some (CompletionUsage (Some 7) (Some 2))))) = [104, 105] \<and>
   response_text (last (yielded (parse_stream_response 9 4
        (AsyncStream [text_chunk [104], text_chunk [105]] (Some (Exception [120])))))) = [104, 105] \<and>
   usage (last (yielded (parse_stream_response 9 4
        (AsyncStream [text_chunk [104], text_chunk [105]] (Some (Exception [120])))))) = None \<and>
   map usage (yielded (parse_stream_response 9 4
        (AsyncStream [text_chunk [104], text_chunk [105]] (Some (Exception [120]))))) = [None, None]"
  by (simp add: text_chunk_def deltas_Cons deltas_Nil parse_response_def response_text_def
      parse_stream_response_def Let_def)

end
